theory Spec2Isabelle
  imports Complex_Main "HOL-Library.AList" "HOL-Library.Log_Nat" "HOL-Library.Stream"
begin

section \<open>Python values, objects and exceptions\<close>

text \<open>
  The exceptions the modelled code can raise, as values. \<open>KeyError\<close> carries the
  missing key, \<open>RuntimeError\<close> its message. \<open>LoadError\<close> stands for whatever
  opening or parsing a configuration file raises.
\<close>

datatype error =
    KeyError string
  | TypeError
  | AttributeError
  | RuntimeError string
  | ValueError
  | IndexError
  | ZeroDivisionError
  | OverflowError
  | LoadError string

text \<open>Sequencing of steps that may raise.\<close>

definition and_then :: "error + 'a \<Rightarrow> ('a \<Rightarrow> error + 'b) \<Rightarrow> error + 'b" where
  "and_then r f = (case r of Inl e \<Rightarrow> Inl e | Inr x \<Rightarrow> f x)"

text \<open>
  The two dtype families of \<open>Config._precisions\<close>: numpy's scalar types and torch's
  dtype objects.
\<close>

datatype np_dtype = np_float16 | np_float32 | np_float64 | np_uint8

datatype torch_dtype = torch_float16 | torch_float32 | torch_float64 | torch_uint8

text \<open>
  A loaded YAML document is a graph of Python objects: scalars are values, mappings and
  sequences are mutable objects that live in a store and are held by reference, so two
  keys of a document can hold the same mapping (a YAML alias). Floats are kept as real
  numbers; the configuration code does no arithmetic on them. The other values YAML can
  denote (dates, byte strings, sets) are left out.
\<close>

type_synonym addr = nat

datatype pyval =
    PNone
  | PBool bool
  | PInt int
  | PFloat real
  | PStr string
  | PRef addr
  | PNumpyDtype np_dtype
  | PTorchDtype torch_dtype

datatype pyobj =
    PDict "(pyval \<times> pyval) list"
  | PList "pyval list"

type_synonym heap = "addr \<Rightarrow> pyobj option"

text \<open>
  A dict keeps its items in insertion order: assigning to a key that is present replaces
  the item where it stands, assigning to a new key appends (\<open>AList.update\<close>); a lookup is
  \<open>map_of\<close>. Only string keys are looked up or assigned here, and a string equals no
  key of another type, so structural equality of keys is Python's \<open>==\<close> for them.
\<close>

definition dict_get :: "(pyval \<times> pyval) list \<Rightarrow> string \<Rightarrow> pyval option" where
  "dict_get kvs k = map_of kvs (PStr k)"

definition dict_set :: "(pyval \<times> pyval) list \<Rightarrow> string \<Rightarrow> pyval \<Rightarrow> (pyval \<times> pyval) list" where
  "dict_set kvs k v = AList.update (PStr k) v kvs"

text \<open>\<open>x.keys()\<close>: only a dict has the attribute.\<close>

definition py_keys :: "heap \<Rightarrow> pyval \<Rightarrow> error + pyval list" where
  "py_keys h x =
     (case x of
        PRef a \<Rightarrow> (case h a of Some (PDict kvs) \<Rightarrow> Inr (map fst kvs) | _ \<Rightarrow> Inl AttributeError)
      | _ \<Rightarrow> Inl AttributeError)"

text \<open>\<open>x[k]\<close> for a string key \<open>k\<close>: a dict raises KeyError on a missing key; a list, a
  string and every other value raise TypeError.\<close>

definition py_getitem :: "heap \<Rightarrow> pyval \<Rightarrow> string \<Rightarrow> error + pyval" where
  "py_getitem h x k =
     (case x of
        PRef a \<Rightarrow>
          (case h a of
             Some (PDict kvs) \<Rightarrow> (case dict_get kvs k of None \<Rightarrow> Inl (KeyError k) | Some v \<Rightarrow> Inr v)
           | _ \<Rightarrow> Inl TypeError)
      | _ \<Rightarrow> Inl TypeError)"

text \<open>\<open>x[k] = v\<close> for a string key \<open>k\<close>: mutates the dict object in place; every other
  value raises TypeError.\<close>

definition py_setitem :: "heap \<Rightarrow> pyval \<Rightarrow> string \<Rightarrow> pyval \<Rightarrow> error + heap" where
  "py_setitem h x k v =
     (case x of
        PRef a \<Rightarrow>
          (case h a of
             Some (PDict kvs) \<Rightarrow> Inr (h(a \<mapsto> PDict (dict_set kvs k v)))
           | _ \<Rightarrow> Inl TypeError)
      | _ \<Rightarrow> Inl TypeError)"

text \<open>\<open>x[k1][k2]\<close>, read.\<close>

definition py_getitem2 :: "heap \<Rightarrow> pyval \<Rightarrow> string \<Rightarrow> string \<Rightarrow> error + pyval" where
  "py_getitem2 h x k1 k2 =
     (case py_getitem h x k1 of Inl e \<Rightarrow> Inl e | Inr y \<Rightarrow> py_getitem h y k2)"

text \<open>Whether a value is a mapping (a reference to a dict object of the store).\<close>

definition is_dict :: "heap \<Rightarrow> pyval \<Rightarrow> bool" where
  "is_dict h x =
     (case x of
        PRef a \<Rightarrow> (case h a of Some (PDict kvs) \<Rightarrow> True | _ \<Rightarrow> False)
      | _ \<Rightarrow> False)"

section \<open>The configuration manager (\<open>utils/config.py\<close>)\<close>

subsection \<open>The precision table\<close>

text \<open>\<open>Config._precisions\<close>, in the order of the source.\<close>

definition precisions :: "(string \<times> np_dtype \<times> torch_dtype) list" where
  "precisions =
     [(''float16'', (np_float16, torch_float16)),
      (''float32'', (np_float32, torch_float32)),
      (''float64'', (np_float64, torch_float64)),
      (''int8'', (np_uint8, torch_uint8))]"

text \<open>
  \<open>self._precisions.get(key, None)\<close>. The key is hashed first: a list or a dict (every
  reference) is unhashable and raises TypeError. A string is looked up; any other
  hashable value equals none of the four string keys.
\<close>

definition hashable :: "pyval \<Rightarrow> bool" where
  "hashable v = (case v of PRef a \<Rightarrow> False | _ \<Rightarrow> True)"

definition precisions_get :: "pyval \<Rightarrow> error + (np_dtype \<times> torch_dtype) option" where
  "precisions_get key =
     (if \<not> hashable key then Inl TypeError
      else case key of PStr n \<Rightarrow> Inr (map_of precisions n) | _ \<Rightarrow> Inr None)"

subsection \<open>\<open>Config._set_precision\<close> and \<open>Config.get_args\<close>\<close>

text \<open>
  \<open>_set_precision(d)\<close> on the store \<open>h\<close>. The result is the returned value or the raised
  exception, together with the store as the call leaves it: the first assignment stays
  done when the second raises. A resolved entry is a non-empty tuple, so
  \<open>not precisions\<close> holds exactly when the lookup gave \<open>None\<close>.
\<close>

definition set_precision :: "heap \<Rightarrow> pyval \<Rightarrow> (error + pyval) \<times> heap" where
  "set_precision h d =
     (case py_keys h d of
        Inl e \<Rightarrow> (Inl e, h)
      | Inr ks \<Rightarrow>
          if PStr ''precision'' \<notin> set ks then (Inr d, h)
          else
            (case py_getitem h d ''precision'' of
               Inl e \<Rightarrow> (Inl e, h)
             | Inr p \<Rightarrow>
                 (case precisions_get p of
                    Inl e \<Rightarrow> (Inl e, h)
                  | Inr None \<Rightarrow> (Inr d, h)
                  | Inr (Some (np, th)) \<Rightarrow>
                      (case py_getitem h d ''model'' of
                         Inl e \<Rightarrow> (Inl e, h)
                       | Inr m \<Rightarrow>
                           (case py_setitem h m ''precision'' (PTorchDtype th) of
                              Inl e \<Rightarrow> (Inl e, h)
                            | Inr h1 \<Rightarrow>
                                (case py_getitem h1 d ''dataset'' of
                                   Inl e \<Rightarrow> (Inl e, h1)
                                 | Inr ds \<Rightarrow>
                                     (case py_setitem h1 ds ''precision'' (PNumpyDtype np) of
                                        Inl e \<Rightarrow> (Inl e, h1)
                                      | Inr h2 \<Rightarrow> (Inr d, h2))))))))"

text \<open>
  \<open>get_args(path)\<close>: opening the file and \<open>yaml.safe_load\<close> are the environment's;
  \<open>safe_load\<close> gives, for a path, the loaded value and the store holding its objects, or
  the exception raised. The loaded value goes through \<open>_set_precision\<close>.
\<close>

definition get_args :: "(string \<Rightarrow> (error + pyval) \<times> heap) \<Rightarrow> string \<Rightarrow> (error + pyval) \<times> heap" where
  "get_args safe_load path =
     (case safe_load path of
        (Inl e, h) \<Rightarrow> (Inl e, h)
      | (Inr args, h) \<Rightarrow> set_precision h args)"

subsection \<open>The model register\<close>

text \<open>
  \<open>Config.__model_register\<close> is a dict from names to registered objects. What a model
  class is (\<open>BaseModel\<close> and its subclasses) is not part of this file, so the type of the
  registered objects is a parameter, and so is their truth value, which \<open>get_model\<close>
  tests: \<open>truth\<close> is \<open>bool(obj)\<close>. A class object is always true.
\<close>

record 'c Config =
  model_register :: "string \<Rightarrow> 'c option"

definition Config_init :: "'c Config" where
  "Config_init = \<lparr>model_register = Map.empty\<rparr>"

definition register_model :: "'c Config \<Rightarrow> string \<Rightarrow> 'c \<Rightarrow> 'c Config" where
  "register_model self name model_class =
     self\<lparr>model_register := (model_register self)(name \<mapsto> model_class)\<rparr>"

definition get_model :: "('c \<Rightarrow> bool) \<Rightarrow> 'c Config \<Rightarrow> string \<Rightarrow> error + 'c" where
  "get_model truth self name =
     (case model_register self name of
        None \<Rightarrow> Inl (RuntimeError (''Model of type '' @ name @ '' is not registered.''))
      | Some model \<Rightarrow>
          if \<not> truth model
          then Inl (RuntimeError (''Model of type '' @ name @ '' is not registered.''))
          else Inr model)"

text \<open>A history of registrations, applied in order to a register.\<close>

fun register_all :: "'c Config \<Rightarrow> (string \<times> 'c) list \<Rightarrow> 'c Config" where
  "register_all self [] = self"
| "register_all self ((name, model_class) # rest) =
     register_all (register_model self name model_class) rest"

section \<open>Python floats\<close>

text \<open>
  A Python float is an IEEE 754 binary64 number. Its finite values are the rationals
  \<open>m * 2^e\<close> with \<open>|m| < 2^53\<close> and \<open>-1074 \<le> e \<le> 971\<close>; besides them there are the two
  infinities and NaN. The sign of a zero is not kept: nothing below divides by a float
  zero, and the two lengths of the shape check are sums with 1, which are never the
  negative zero. Arithmetic rounds to nearest, ties to even, as CPython does on IEEE
  hardware.
\<close>

datatype pyfloat = Finite rat | PosInf | NegInf | NaN

text \<open>Rounding to the nearest integer, a tie to the even one.\<close>

definition rne :: "rat \<Rightarrow> int" where
  "rne x =
     (let f = \<lfloor>x\<rfloor>; r = x - of_int f
      in if r < 1 / 2 then f else if r > 1 / 2 then f + 1 else if even f then f else f + 1)"

text \<open>
  The binary exponent of a rational other than zero, \<open>floor(log2 |x|)\<close>, from the bit
  length of an integer (Python's \<open>int.bit_length\<close> is \<open>bitlen\<close>).
\<close>

definition binade :: "rat \<Rightarrow> int" where
  "binade x =
     (if \<bar>x\<bar> \<ge> 1 then bitlen \<lfloor>\<bar>x\<bar>\<rfloor> - 1 else - bitlen (\<lceil>1 / \<bar>x\<bar>\<rceil> - 1))"

text \<open>
  Rounding to binary64, the exponent unbounded above: the spacing of the doubles around
  \<open>x\<close> is \<open>2^(binade x - 52)\<close>, and \<open>2^-1074\<close> in the subnormal range. A result of magnitude
  \<open>2^1024\<close> or more has left the range of the finite doubles.
\<close>

definition round64 :: "rat \<Rightarrow> rat" where
  "round64 x =
     (if x = 0 then 0
      else let e = max (binade x - 52) (- 1074)
           in of_int (rne (x / 2 powi e)) * 2 powi e)"

definition overflows :: "rat \<Rightarrow> bool" where
  "overflows r = (\<bar>r\<bar> \<ge> 2 ^ 1024)"

text \<open>The result of a float operation whose exact value is \<open>x\<close>: overflow gives an infinity.\<close>

definition to_float :: "rat \<Rightarrow> pyfloat" where
  "to_float x =
     (let r = round64 x
      in if overflows r then (if r > 0 then PosInf else NegInf) else Finite r)"

text \<open>
  Where Python has to raise instead: the conversion of an \<open>int\<close> that meets a float
  operand, and the true division \<open>a / b\<close> of two \<open>int\<close>s, which rounds the exact quotient
  once.
\<close>

definition float_of_int :: "int \<Rightarrow> error + pyfloat" where
  "float_of_int i =
     (let r = round64 (of_int i) in if overflows r then Inl OverflowError else Inr (Finite r))"

definition int_truediv :: "int \<Rightarrow> int \<Rightarrow> error + pyfloat" where
  "int_truediv a b =
     (if b = 0 then Inl ZeroDivisionError
      else let r = round64 (of_int a / of_int b)
           in if overflows r then Inl OverflowError else Inr (Finite r))"

text \<open>Negation, addition, subtraction, division and \<open>>\<close> of two floats.\<close>

fun float_neg :: "pyfloat \<Rightarrow> pyfloat" where
  "float_neg (Finite a) = Finite (- a)"
| "float_neg PosInf = NegInf"
| "float_neg NegInf = PosInf"
| "float_neg NaN = NaN"

fun float_add :: "pyfloat \<Rightarrow> pyfloat \<Rightarrow> pyfloat" where
  "float_add (Finite a) (Finite b) = to_float (a + b)"
| "float_add NaN y = NaN"
| "float_add x NaN = NaN"
| "float_add PosInf NegInf = NaN"
| "float_add NegInf PosInf = NaN"
| "float_add PosInf y = PosInf"
| "float_add NegInf y = NegInf"
| "float_add x PosInf = PosInf"
| "float_add x NegInf = NegInf"

definition float_sub :: "pyfloat \<Rightarrow> pyfloat \<Rightarrow> pyfloat" where
  "float_sub x y = float_add x (float_neg y)"

fun float_div :: "pyfloat \<Rightarrow> pyfloat \<Rightarrow> error + pyfloat" where
  "float_div x (Finite b) =
     (if b = 0 then Inl ZeroDivisionError
      else case x of
             Finite a \<Rightarrow> Inr (to_float (a / b))
           | PosInf \<Rightarrow> Inr (if b > 0 then PosInf else NegInf)
           | NegInf \<Rightarrow> Inr (if b > 0 then NegInf else PosInf)
           | NaN \<Rightarrow> Inr NaN)"
| "float_div x NaN = Inr NaN"
| "float_div (Finite a) y = Inr (Finite 0)"
| "float_div x y = Inr NaN"

fun float_gt :: "pyfloat \<Rightarrow> pyfloat \<Rightarrow> bool" where
  "float_gt (Finite a) (Finite b) = (a > b)"
| "float_gt NaN y = False"
| "float_gt x NaN = False"
| "float_gt x PosInf = False"
| "float_gt NegInf y = False"
| "float_gt PosInf y = True"
| "float_gt x NegInf = True"

text \<open>A float and an \<open>int\<close> operand: the \<open>int\<close> is converted first.\<close>

definition float_add_int :: "pyfloat \<Rightarrow> int \<Rightarrow> error + pyfloat" where
  "float_add_int x i = and_then (float_of_int i) (\<lambda>y. Inr (float_add x y))"

definition float_sub_int :: "pyfloat \<Rightarrow> int \<Rightarrow> error + pyfloat" where
  "float_sub_int x i = and_then (float_of_int i) (\<lambda>y. Inr (float_sub x y))"

definition float_div_int :: "pyfloat \<Rightarrow> int \<Rightarrow> error + pyfloat" where
  "float_div_int x i = and_then (float_of_int i) (\<lambda>y. float_div x y)"

section \<open>The shape check of the auto-encoder's constructor (\<open>model/ae_model.py\<close>)\<close>

text \<open>
  Lines 62 to 69 of \<open>AE.__init__\<close>. The parameters are Python integers of any size.
  Line 63 computes \<open>ef_length\<close> with a true division of integers and a float addition,
  line 64 computes \<open>ls_length\<close> from it in float arithmetic; either can raise. The warning
  goes to standard output, modelled as the list of the lines printed so far; a printed
  warning is kept as the two numbers it shows.
\<close>

definition AE_ef_length :: "int \<Rightarrow> int \<Rightarrow> int \<Rightarrow> int \<Rightarrow> error + pyfloat" where
  "AE_ef_length sequence_length kernel_size stride padding =
     and_then (int_truediv (sequence_length - kernel_size + 2 * padding) stride) (\<lambda>q.
     float_add_int q 1)"

definition AE_ls_length :: "pyfloat \<Rightarrow> int \<Rightarrow> int \<Rightarrow> int \<Rightarrow> error + pyfloat" where
  "AE_ls_length ef_length kernel_size stride padding =
     and_then (float_sub_int ef_length kernel_size) (\<lambda>a.
     and_then (float_add_int a (2 * padding)) (\<lambda>b.
     and_then (float_div_int b stride) (\<lambda>c.
     float_add_int c 1)))"

datatype printed = ShapeWarning pyfloat pyfloat

definition AE_shape_check :: "int \<Rightarrow> int \<Rightarrow> int \<Rightarrow> int \<Rightarrow> printed list \<Rightarrow> (error + pyfloat \<times> pyfloat) \<times> printed list" where
  "AE_shape_check sequence_length kernel_size stride padding out =
     (case AE_ef_length sequence_length kernel_size stride padding of
        Inl e \<Rightarrow> (Inl e, out)
      | Inr ef_length \<Rightarrow>
          (case AE_ls_length ef_length kernel_size stride padding of
             Inl e \<Rightarrow> (Inl e, out)
           | Inr ls_length \<Rightarrow>
               if float_gt ef_length ls_length
               then (Inr (ef_length, ls_length), out @ [ShapeWarning ef_length ls_length])
               else (Inr (ef_length, ls_length), out)))"

text \<open>
  The output length of a strided convolution as the specification gives it,
  \<open>floor((L - kernel + 2*pad)/stride) + 1\<close>, to compare with what the constructor
  computes.
\<close>

definition spec_conv_length :: "int \<Rightarrow> int \<Rightarrow> int \<Rightarrow> int \<Rightarrow> int" where
  "spec_conv_length L kernel_size pad stride = (L - kernel_size + 2 * pad) div stride + 1"

section \<open>Tensors\<close>

text \<open>
  What the models compute on. A tensor is its shape and its elements in row-major order;
  the elements are real numbers, so rounding, infinities and NaN of floating point are
  outside the model, and so are dtype, device and memory layout (\<open>.to(device)\<close> leaves
  shape and elements as they are). A tensor is well formed when it has as many elements
  as its shape says.
\<close>

record tensor =
  shape :: "nat list"
  elems :: "real list"

definition wf_tensor :: "tensor \<Rightarrow> bool" where
  "wf_tensor t = (length (elems t) = prod_list (shape t))"

text \<open>\<open>torch.zeros(s)\<close>.\<close>

definition zeros :: "nat list \<Rightarrow> tensor" where
  "zeros s = \<lparr>shape = s, elems = replicate (prod_list s) 0\<rparr>"

text \<open>
  Broadcasting of two shapes, from the last dimension backwards: two sizes go together
  when they are equal or one of them is 1, and the shorter shape is filled up at the
  front. \<open>broadcast_rev\<close> works on the reversed shapes.
\<close>

fun broadcast_rev :: "nat list \<Rightarrow> nat list \<Rightarrow> nat list option" where
  "broadcast_rev [] ys = Some ys"
| "broadcast_rev xs [] = Some xs"
| "broadcast_rev (x # xs) (y # ys) =
     (if x = y \<or> y = 1 then map_option ((#) x) (broadcast_rev xs ys)
      else if x = 1 then map_option ((#) y) (broadcast_rev xs ys)
      else None)"

definition broadcast_shapes :: "nat list \<Rightarrow> nat list \<Rightarrow> nat list option" where
  "broadcast_shapes a b = map_option rev (broadcast_rev (rev a) (rev b))"

text \<open>All index tuples of a shape in row-major order, and the offset of an index tuple.\<close>

fun indices :: "nat list \<Rightarrow> nat list list" where
  "indices [] = [[]]"
| "indices (d # ds) = concat (map (\<lambda>i. map ((#) i) (indices ds)) [0..<d])"

fun ravel :: "nat list \<Rightarrow> nat list \<Rightarrow> nat" where
  "ravel (d # ds) (i # js) = i * prod_list ds + ravel ds js"
| "ravel ds js = 0"

text \<open>
  The index into an operand of shape \<open>s\<close> that belongs to an index of the broadcast
  result: the leading dimensions the operand lacks are dropped, and a dimension of size 1
  is read at 0.
\<close>

definition operand_index :: "nat list \<Rightarrow> nat list \<Rightarrow> nat list" where
  "operand_index s idx =
     map2 (\<lambda>d i. if d = 1 then 0 else i) s (drop (length idx - length s) idx)"

text \<open>An elementwise binary operation (\<open>a + b\<close>, \<open>a * b\<close>) with broadcasting.\<close>

definition tensor_binop :: "(real \<Rightarrow> real \<Rightarrow> real) \<Rightarrow> tensor \<Rightarrow> tensor \<Rightarrow> error + tensor" where
  "tensor_binop f a b =
     (case broadcast_shapes (shape a) (shape b) of
        None \<Rightarrow> Inl (RuntimeError ''The size of tensor a must match the size of tensor b'')
      | Some s \<Rightarrow>
          Inr \<lparr>shape = s,
               elems = map (\<lambda>idx. f (elems a ! ravel (shape a) (operand_index (shape a) idx))
                                    (elems b ! ravel (shape b) (operand_index (shape b) idx)))
                           (indices s)\<rparr>)"

text \<open>\<open>torch.relu(x)\<close>, \<open>torch.exp(x)\<close> and \<open>c * x\<close> for a Python float \<open>c\<close>.\<close>

definition relu :: "tensor \<Rightarrow> tensor" where
  "relu x = x\<lparr>elems := map (max 0) (elems x)\<rparr>"

definition tensor_exp :: "tensor \<Rightarrow> tensor" where
  "tensor_exp x = x\<lparr>elems := map exp (elems x)\<rparr>"

definition scalar_mul :: "real \<Rightarrow> tensor \<Rightarrow> tensor" where
  "scalar_mul c x = x\<lparr>elems := map ((*) c) (elems x)\<rparr>"

text \<open>\<open>torch.swapaxes(x, i, j)\<close> for two axes given from the front.\<close>

definition swap_list :: "nat \<Rightarrow> nat \<Rightarrow> 'a list \<Rightarrow> 'a list" where
  "swap_list i j xs = xs[i := xs ! j, j := xs ! i]"

definition swapaxes :: "tensor \<Rightarrow> nat \<Rightarrow> nat \<Rightarrow> error + tensor" where
  "swapaxes x i j =
     (if i < length (shape x) \<and> j < length (shape x)
      then Inr \<lparr>shape = swap_list i j (shape x),
                elems = map (\<lambda>idx. elems x ! ravel (shape x) (swap_list i j idx))
                            (indices (swap_list i j (shape x)))\<rparr>
      else Inl IndexError)"

text \<open>
  \<open>x.view(s)\<close>: the same elements under a new shape of the same size. The tensors have no
  strides here, so this is \<open>view\<close> on a contiguous tensor, which is what a convolution
  stage and a linear layer return; on a tensor whose strides do not fit the new shape
  torch raises, and that case is not in the model.
\<close>

definition view :: "tensor \<Rightarrow> nat list \<Rightarrow> error + tensor" where
  "view x s =
     (if prod_list s = length (elems x) then Inr (x\<lparr>shape := s\<rparr>)
      else Inl (RuntimeError ''shape is invalid for input of this size''))"

text \<open>\<open>a, b, c, d = x.shape\<close>: unpacking raises ValueError unless there are four sizes.\<close>

definition unpack4 :: "nat list \<Rightarrow> error + nat \<times> nat \<times> nat \<times> nat" where
  "unpack4 s = (case s of [a, b, c, d] \<Rightarrow> Inr (a, b, c, d) | _ \<Rightarrow> Inl ValueError)"

text \<open>
  The random generator is the sequence of standard-normal samples it will hand out.
  \<open>torch.randn_like(x)\<close> takes as many as \<open>x\<close> has elements, shaped like \<open>x\<close>.
\<close>

definition randn_like :: "real stream \<Rightarrow> tensor \<Rightarrow> tensor \<times> real stream" where
  "randn_like g x =
     (\<lparr>shape = shape x, elems = stake (prod_list (shape x)) g\<rparr>, sdrop (prod_list (shape x)) g)"

section \<open>Modules and their parameters\<close>

text \<open>
  A parameter is a tensor with its \<open>requires_grad\<close> flag. A module (a layer, or a
  \<open>Sequential\<close> of layers) has its parameters, as \<open>parameters()\<close> lists them, and the
  function it computes from their values; what that function is, is the framework's.
\<close>

record param =
  p_data :: tensor
  requires_grad :: bool

record module =
  params :: "param list"
  forward_fn :: "tensor list \<Rightarrow> tensor \<Rightarrow> error + tensor"

definition call :: "module \<Rightarrow> tensor \<Rightarrow> error + tensor" where
  "call m x = forward_fn m (map p_data (params m)) x"

text \<open>The loop \<open>for param in ps: param.requires_grad = v\<close>.\<close>

fun set_requires_grad :: "bool \<Rightarrow> param list \<Rightarrow> param list" where
  "set_requires_grad v [] = []"
| "set_requires_grad v (p # ps) = p\<lparr>requires_grad := v\<rparr> # set_requires_grad v ps"

definition module_requires_grad :: "bool \<Rightarrow> module \<Rightarrow> module" where
  "module_requires_grad v m = m\<lparr>params := set_requires_grad v (params m)\<rparr>"

text \<open>The number of parameters that are trained.\<close>

definition trainable :: "param list \<Rightarrow> nat" where
  "trainable ps = length (filter requires_grad ps)"

section \<open>The auto-encoder (\<open>model/ae_model.py\<close>)\<close>

record AE =
  encoder :: module
  decoder :: module

definition AE_parameters :: "AE \<Rightarrow> param list" where
  "AE_parameters self = params (encoder self) @ params (decoder self)"

text \<open>\<open>AE.freeze(unfreeze)\<close>.\<close>

definition AE_freeze :: "AE \<Rightarrow> bool \<Rightarrow> AE" where
  "AE_freeze self unfreeze =
     self\<lparr>encoder := module_requires_grad (\<not> unfreeze) (encoder self),
          decoder := module_requires_grad (\<not> unfreeze) (decoder self)\<rparr>"

section \<open>The variational auto-encoder (\<open>model/auto_encoder/conv_vae.py\<close>)\<close>

text \<open>
  Modelled from the spec: the base class \<open>ConvAE\<close> of \<open>ConvVAE\<close> is not among the sources.
  \<open>ConvVAE\<close> reads its two encoder stages \<open>_encoder_1\<close> and \<open>_encoder_2\<close>; the decoder
  stack is the one the specification describes, and its \<open>decode\<close> "applies the
  decoder stack".
\<close>

record ConvAE =
  encoder_1 :: module
  encoder_2 :: module
  conv_decoder :: module

text \<open>Modelled from the spec: \<open>ConvAE.decode(z)\<close>, which is not among the sources.\<close>

definition ConvAE_decode :: "'a ConvAE_scheme \<Rightarrow> tensor \<Rightarrow> error + tensor" where
  "ConvAE_decode self z = call (conv_decoder self) z"

text \<open>\<open>ConvVAE\<close> adds the two linear layers of the latent distribution.\<close>

record ConvVAE = ConvAE +
  mean_layer :: module
  var_layer :: module

text \<open>
  \<open>ConvVAE.reparameterization(mean, var)\<close>: one draw of noise shaped like \<open>var\<close> (moved to
  the model's device, which changes no element), then \<open>mean + var * epsilon\<close>. The
  generator comes back advanced by the draw.
\<close>

definition reparameterization :: "tensor \<Rightarrow> tensor \<Rightarrow> real stream \<Rightarrow> (error + tensor) \<times> real stream" where
  "reparameterization mean var g =
     (case randn_like g var of
        (epsilon, g') \<Rightarrow>
          (and_then (tensor_binop (*) var epsilon) (\<lambda>ve. tensor_binop (+) mean ve), g'))"

text \<open>
  \<open>ConvVAE._encode(x)\<close>: two axis swaps, the two encoder stages each followed by a
  rectifier, the flattening, and the two linear layers, each result shaped back.
\<close>

definition ConvVAE__encode :: "ConvVAE \<Rightarrow> tensor \<Rightarrow> error + tensor \<times> tensor" where
  "ConvVAE__encode self x =
     and_then (swapaxes x 1 3) (\<lambda>x.
     and_then (swapaxes x 2 1) (\<lambda>x.
     and_then (call (encoder_1 self) x) (\<lambda>x.
     let x = relu x in
     and_then (call (encoder_2 self) x) (\<lambda>x.
     let x = relu x in
     and_then (unpack4 (shape x)) (\<lambda>(batch, channels, features, samples).
     and_then (view x [batch, features * samples * channels]) (\<lambda>x.
     and_then (call (mean_layer self) x) (\<lambda>m.
     and_then (view m [batch, channels, features, samples]) (\<lambda>mean.
     and_then (call (var_layer self) x) (\<lambda>v.
     and_then (view v [batch, channels, features, samples]) (\<lambda>log_var.
     Inr (mean, log_var)))))))))))"

text \<open>
  \<open>ConvVAE.freeze(unfreeze)\<close>: the base class's freeze, then the parameters of the two
  linear layers. \<open>super().freeze\<close> is \<open>ConvAE.freeze\<close>, whose code is not among the
  sources: it is the parameter \<open>super_freeze\<close>.
\<close>

definition ConvVAE_freeze :: "(ConvVAE \<Rightarrow> bool \<Rightarrow> ConvVAE) \<Rightarrow> ConvVAE \<Rightarrow> bool \<Rightarrow> ConvVAE" where
  "ConvVAE_freeze super_freeze self unfreeze =
     (let self = super_freeze self unfreeze
      in self\<lparr>mean_layer := module_requires_grad (\<not> unfreeze) (mean_layer self),
              var_layer := module_requires_grad (\<not> unfreeze) (var_layer self)\<rparr>)"

text \<open>\<open>ConvVAE.forward(x)\<close>.\<close>

definition ConvVAE_forward :: "ConvVAE \<Rightarrow> tensor \<Rightarrow> real stream \<Rightarrow> (error + tensor) \<times> real stream" where
  "ConvVAE_forward self x g =
     (case ConvVAE__encode self x of
        Inl e \<Rightarrow> (Inl e, g)
      | Inr (mean, log_var) \<Rightarrow>
          (case reparameterization mean (tensor_exp (scalar_mul (1 / 2) log_var)) g of
             (Inl e, g') \<Rightarrow> (Inl e, g')
           | (Inr z, g') \<Rightarrow> (ConvAE_decode self z, g')))"

section \<open>Example documents\<close>

text \<open>
  The store after loading
  \<^verbatim>\<open>precision: float32
model: {lr: 0.001}
dataset: {}\<close>
  with the document at address 0, and the same document with a section left out.
\<close>

definition cfg_root :: "(pyval \<times> pyval) list" where
  "cfg_root =
     [(PStr ''precision'', PStr ''float32''), (PStr ''model'', PRef 1), (PStr ''dataset'', PRef 2)]"

definition cfg_heap :: heap where
  "cfg_heap = [0 \<mapsto> PDict cfg_root, 1 \<mapsto> PDict [(PStr ''lr'', PFloat (1 / 1000))], 2 \<mapsto> PDict []]"

definition cfg_no_model :: heap where
  "cfg_no_model = [0 \<mapsto> PDict [(PStr ''precision'', PStr ''float32'')]]"

definition cfg_no_dataset :: heap where
  "cfg_no_dataset =
     [0 \<mapsto> PDict [(PStr ''precision'', PStr ''float32''), (PStr ''model'', PRef 1)],
      1 \<mapsto> PDict []]"

text \<open>A document whose \<open>precision\<close> is not a registered name, and one that asks for \<open>int8\<close>.\<close>

definition cfg_unknown :: heap where
  "cfg_unknown =
     [0 \<mapsto> PDict [(PStr ''precision'', PStr ''float128''), (PStr ''model'', PRef 1)],
      1 \<mapsto> PDict []]"

definition cfg_int8 :: heap where
  "cfg_int8 =
     [0 \<mapsto> PDict [(PStr ''precision'', PStr ''int8''), (PStr ''model'', PRef 1), (PStr ''dataset'', PRef 2)],
      1 \<mapsto> PDict [], 2 \<mapsto> PDict []]"

text \<open>
  \<^verbatim>\<open>precision: float32
model: &s {}
dataset: *s\<close>
  Both sections are one mapping.
\<close>

definition cfg_aliased :: heap where
  "cfg_aliased =
     [0 \<mapsto> PDict [(PStr ''precision'', PStr ''float32''), (PStr ''model'', PRef 1), (PStr ''dataset'', PRef 1)],
      1 \<mapsto> PDict []]"

text \<open>\<^verbatim>\<open>precision: [float32]\<close>: the value is a sequence.\<close>

definition cfg_list_precision :: heap where
  "cfg_list_precision =
     [0 \<mapsto> PDict [(PStr ''precision'', PRef 1), (PStr ''model'', PRef 2), (PStr ''dataset'', PRef 3)],
      1 \<mapsto> PList [PStr ''float32''], 2 \<mapsto> PDict [], 3 \<mapsto> PDict []]"

section \<open>Example models\<close>

text \<open>
  A variational auto-encoder whose layers all hand their input back, an input of shape
  (1, 1, 1, 2), and an auto-encoder with two parameters in its encoder and two in its
  decoder, one of each pair trained and one not.
\<close>

definition identity_module :: module where
  "identity_module = \<lparr>params = [], forward_fn = (\<lambda>ps x. Inr x)\<rparr>"

definition example_vae :: ConvVAE where
  "example_vae =
     \<lparr>encoder_1 = identity_module, encoder_2 = identity_module, conv_decoder = identity_module,
      mean_layer = identity_module, var_layer = identity_module\<rparr>"

definition example_x :: tensor where
  "example_x = \<lparr>shape = [1, 1, 1, 2], elems = [0, 2]\<rparr>"

definition example_param :: "bool \<Rightarrow> param" where
  "example_param b = \<lparr>p_data = \<lparr>shape = [1], elems = [1 / 2]\<rparr>, requires_grad = b\<rparr>"

definition example_layer :: module where
  "example_layer =
     \<lparr>params = [example_param True, example_param False], forward_fn = (\<lambda>ps x. Inr x)\<rparr>"

definition example_ae :: AE where
  "example_ae = \<lparr>encoder = example_layer, decoder = example_layer\<rparr>"

section \<open>Properties of precision resolution\<close>

text \<open>Assigning to one key of a dict leaves the other keys as they were.\<close>

lemma dict_get_set: "dict_get (dict_set kvs k v) k' = (if k' = k then Some v else dict_get kvs k')"
  by (simp add: dict_get_def dict_set_def update_conv')

lemma key_present_iff: "PStr k \<in> fst ` set kvs \<longleftrightarrow> dict_get kvs k \<noteq> None"
  by (simp add: dict_get_def map_of_eq_None_iff)

lemma set_precision_dict:
  assumes "h a = Some (PDict kvs)"
  shows "set_precision h (PRef a) =
     (case dict_get kvs ''precision'' of
        None \<Rightarrow> (Inr (PRef a), h)
      | Some p \<Rightarrow>
          (case precisions_get p of
             Inl e \<Rightarrow> (Inl e, h)
           | Inr None \<Rightarrow> (Inr (PRef a), h)
           | Inr (Some (np, th)) \<Rightarrow>
               (case dict_get kvs ''model'' of
                  None \<Rightarrow> (Inl (KeyError ''model''), h)
                | Some m \<Rightarrow>
                    (case py_setitem h m ''precision'' (PTorchDtype th) of
                       Inl e \<Rightarrow> (Inl e, h)
                     | Inr h1 \<Rightarrow>
                         (case py_getitem h1 (PRef a) ''dataset'' of
                            Inl e \<Rightarrow> (Inl e, h1)
                          | Inr ds \<Rightarrow>
                              (case py_setitem h1 ds ''precision'' (PNumpyDtype np) of
                                 Inl e \<Rightarrow> (Inl e, h1)
                               | Inr h2 \<Rightarrow> (Inr (PRef a), h2)))))))"
proof (cases "dict_get kvs ''precision''")
  case None
  with assms show ?thesis
    by (simp add: set_precision_def py_keys_def key_present_iff)
next
  case (Some p)
  with assms show ?thesis
    by (simp add: set_precision_def py_keys_def py_getitem_def key_present_iff
             split: option.splits sum.splits)
qed

lemma is_dictE: "is_dict h x \<Longrightarrow> \<exists>a kvs. x = PRef a \<and> h a = Some (PDict kvs)"
  by (auto simp: is_dict_def split: pyval.splits option.splits pyobj.splits)

lemma set_precision_written:
  assumes d: "h a = Some (PDict kvs)"
    and p: "dict_get kvs ''precision'' = Some (PStr n)"
    and r: "map_of precisions n = Some (np, th)"
    and m: "dict_get kvs ''model'' = Some m" "is_dict h m"
    and ds: "dict_get kvs ''dataset'' = Some ds" "is_dict h ds"
    and ne: "m \<noteq> ds"
  shows "\<exists>h'. set_precision h (PRef a) = (Inr (PRef a), h')
           \<and> py_getitem2 h' (PRef a) ''model'' ''precision'' = Inr (PTorchDtype th)
           \<and> py_getitem2 h' (PRef a) ''dataset'' ''precision'' = Inr (PNumpyDtype np)"
proof -
  from m(2) obtain am mk where am: "m = PRef am" "h am = Some (PDict mk)"
    using is_dictE by blast
  from ds(2) obtain ad dk where ad: "ds = PRef ad" "h ad = Some (PDict dk)"
    using is_dictE by blast
  from ne am ad have "am \<noteq> ad" by simp
  with d p r m(1) ds(1) am ad show ?thesis
    by (auto simp: set_precision_dict precisions_get_def hashable_def py_setitem_def
          py_getitem_def py_getitem2_def dict_get_set)
qed

lemma precisions_get_unregistered:
  "hashable p \<Longrightarrow> p \<notin> PStr ` fst ` set precisions \<Longrightarrow> precisions_get p = Inr None"
  by (cases p) (auto simp: precisions_get_def map_of_eq_None_iff)

lemma set_precision_unchanged:
  assumes d: "h a = Some (PDict kvs)"
    and "dict_get kvs ''precision'' = None
         \<or> (\<exists>p. dict_get kvs ''precision'' = Some p \<and> hashable p \<and> p \<notin> PStr ` fst ` set precisions)"
  shows "set_precision h (PRef a) = (Inr (PRef a), h)"
  using assms
  by (auto simp: set_precision_dict precisions_get_unregistered)

lemma set_precision_missing_model:
  assumes d: "h a = Some (PDict kvs)"
    and p: "dict_get kvs ''precision'' = Some (PStr n)"
    and r: "map_of precisions n = Some (np, th)"
    and m: "dict_get kvs ''model'' = None"
  shows "set_precision h (PRef a) = (Inl (KeyError ''model''), h)"
  using assms by (simp add: set_precision_dict precisions_get_def hashable_def)

lemma set_precision_missing_dataset:
  assumes d: "h a = Some (PDict kvs)"
    and p: "dict_get kvs ''precision'' = Some (PStr n)"
    and r: "map_of precisions n = Some (np, th)"
    and m: "dict_get kvs ''model'' = Some m" "is_dict h m"
    and ds: "dict_get kvs ''dataset'' = None"
  shows "fst (set_precision h (PRef a)) = Inl (KeyError ''dataset'')"
proof -
  from m(2) obtain am mk where am: "m = PRef am" "h am = Some (PDict mk)"
    using is_dictE by blast
  with d p r m(1) ds show ?thesis
    by (auto simp: set_precision_dict precisions_get_def hashable_def py_setitem_def
          py_getitem_def dict_get_set)
qed

lemma set_precision_missing_section:
  assumes d: "h a = Some (PDict kvs)"
    and p: "dict_get kvs ''precision'' = Some (PStr n)"
    and r: "map_of precisions n = Some (np, th)"
    and m: "dict_get kvs ''model'' = None \<or> dict_get kvs ''dataset'' = None"
  shows "\<exists>e. fst (set_precision h (PRef a)) = Inl e"
proof (cases "dict_get kvs ''model''")
  case None
  with d p r show ?thesis by (simp add: set_precision_missing_model)
next
  case (Some m)
  with assms have ds: "dict_get kvs ''dataset'' = None" by simp
  show ?thesis
  proof (cases "py_setitem h m ''precision'' (PTorchDtype th)")
    case (Inl e)
    with d p r Some show ?thesis
      by (simp add: set_precision_dict precisions_get_def hashable_def)
  next
    case (Inr h1)
    then have "py_getitem h1 (PRef a) ''dataset'' = Inl (KeyError ''dataset'')"
      using d ds
      by (auto simp: py_setitem_def py_getitem_def dict_get_set
               split: pyval.splits option.splits pyobj.splits if_splits)
    with d p r Some Inr show ?thesis
      by (simp add: set_precision_dict precisions_get_def hashable_def)
  qed
qed

text \<open>An exception raised while the file is opened or parsed goes to the caller.\<close>

lemma get_args_load_error:
  "safe_load path = (Inl e, h) \<Longrightarrow> get_args safe_load path = (Inl e, h)"
  by (simp add: get_args_def)

text \<open>
  Claim C1, as amended. For a loaded document that is a mapping: when \<open>precision\<close> at the
  root is a registered name and \<open>model\<close> and \<open>dataset\<close> hold two different mappings,
  \<open>get_args\<close> returns the document with the numpy dtype at \<open>d['dataset']['precision']\<close>
  and the torch dtype at \<open>d['model']['precision']\<close>; when \<open>precision\<close> is absent, or holds
  a hashable value that is not a registered name, the document comes back as it was
  loaded, the store untouched.
\<close>

theorem get_args_precision:
  assumes "safe_load path = (Inr (PRef a), h)" and "h a = Some (PDict kvs)"
  shows "(dict_get kvs ''precision'' = Some (PStr n) \<and> map_of precisions n = Some (np, th)
           \<and> dict_get kvs ''model'' = Some m \<and> is_dict h m
           \<and> dict_get kvs ''dataset'' = Some ds \<and> is_dict h ds \<and> m \<noteq> ds
          \<longrightarrow> (\<exists>h'. get_args safe_load path = (Inr (PRef a), h')
                 \<and> py_getitem2 h' (PRef a) ''dataset'' ''precision'' = Inr (PNumpyDtype np)
                 \<and> py_getitem2 h' (PRef a) ''model'' ''precision'' = Inr (PTorchDtype th)))
       \<and> (dict_get kvs ''precision'' = None
            \<or> (\<exists>p. dict_get kvs ''precision'' = Some p \<and> hashable p \<and> p \<notin> PStr ` fst ` set precisions)
          \<longrightarrow> get_args safe_load path = (Inr (PRef a), h))"
proof (intro conjI impI)
  assume "dict_get kvs ''precision'' = Some (PStr n) \<and> map_of precisions n = Some (np, th)
           \<and> dict_get kvs ''model'' = Some m \<and> is_dict h m
           \<and> dict_get kvs ''dataset'' = Some ds \<and> is_dict h ds \<and> m \<noteq> ds"
  then obtain h' where "set_precision h (PRef a) = (Inr (PRef a), h')"
      "py_getitem2 h' (PRef a) ''model'' ''precision'' = Inr (PTorchDtype th)"
      "py_getitem2 h' (PRef a) ''dataset'' ''precision'' = Inr (PNumpyDtype np)"
    using set_precision_written [of h a kvs n np th m ds] assms(2) by blast
  with assms(1) show "\<exists>h'. get_args safe_load path = (Inr (PRef a), h')
                 \<and> py_getitem2 h' (PRef a) ''dataset'' ''precision'' = Inr (PNumpyDtype np)
                 \<and> py_getitem2 h' (PRef a) ''model'' ''precision'' = Inr (PTorchDtype th)"
    by (simp add: get_args_def)
next
  assume "dict_get kvs ''precision'' = None
            \<or> (\<exists>p. dict_get kvs ''precision'' = Some p \<and> hashable p \<and> p \<notin> PStr ` fst ` set precisions)"
  then have "set_precision h (PRef a) = (Inr (PRef a), h)"
    using set_precision_unchanged [of h a kvs] assms(2) by blast
  with assms(1) show "get_args safe_load path = (Inr (PRef a), h)"
    by (simp add: get_args_def)
qed

theorem get_args_precision_witness:
  "(\<exists>h'. get_args (\<lambda>p. (Inr (PRef 0), cfg_heap)) ''config.yaml'' = (Inr (PRef 0), h')
        \<and> py_getitem2 h' (PRef 0) ''dataset'' ''precision'' = Inr (PNumpyDtype np_float32)
        \<and> py_getitem2 h' (PRef 0) ''model'' ''precision'' = Inr (PTorchDtype torch_float32))
   \<and> get_args (\<lambda>p. (Inr (PRef 0), cfg_unknown)) ''config.yaml'' = (Inr (PRef 0), cfg_unknown)"
proof
  show "\<exists>h'. get_args (\<lambda>p. (Inr (PRef 0), cfg_heap)) ''config.yaml'' = (Inr (PRef 0), h')
        \<and> py_getitem2 h' (PRef 0) ''dataset'' ''precision'' = Inr (PNumpyDtype np_float32)
        \<and> py_getitem2 h' (PRef 0) ''model'' ''precision'' = Inr (PTorchDtype torch_float32)"
    using get_args_precision [of "\<lambda>p. (Inr (PRef 0), cfg_heap)" "''config.yaml''" 0 cfg_heap
        cfg_root "''float32''" np_float32 torch_float32 "PRef 1" "PRef 2"]
    by (simp add: dict_get_def precisions_def is_dict_def cfg_heap_def cfg_root_def)
  show "get_args (\<lambda>p. (Inr (PRef 0), cfg_unknown)) ''config.yaml'' = (Inr (PRef 0), cfg_unknown)"
    using get_args_precision [of "\<lambda>p. (Inr (PRef 0), cfg_unknown)" "''config.yaml''" 0 cfg_unknown
        "[(PStr ''precision'', PStr ''float128''), (PStr ''model'', PRef 1)]"]
    by (simp add: dict_get_def precisions_def hashable_def cfg_unknown_def)
qed

text \<open>
  The claim as first stated fails on a document that names a registered precision and
  has no \<open>model\<close> section: the call raises \<open>KeyError('model')\<close> and writes nothing.
\<close>

theorem get_args_precision_counterexample:
  "dict_get [(PStr ''precision'', PStr ''float32'')] ''precision'' = Some (PStr ''float32'')
   \<and> map_of precisions ''float32'' = Some (np_float32, torch_float32)
   \<and> get_args (\<lambda>p. (Inr (PRef 0), cfg_no_model)) ''config.yaml''
       = (Inl (KeyError ''model''), cfg_no_model)"
  by (simp add: get_args_def set_precision_def py_keys_def py_getitem_def dict_get_def
        precisions_get_def hashable_def precisions_def cfg_no_model_def)

text \<open>
  Two more documents outside the amended claim. When both sections are one mapping (a
  YAML alias), the second assignment overwrites the first and \<open>model.precision\<close> ends as
  the numpy dtype. When the value of \<open>precision\<close> is a sequence, hashing it raises
  TypeError.
\<close>

lemma get_args_aliased_sections:
  "\<exists>h'. get_args (\<lambda>p. (Inr (PRef 0), cfg_aliased)) ''config.yaml'' = (Inr (PRef 0), h')
        \<and> py_getitem2 h' (PRef 0) ''model'' ''precision'' = Inr (PNumpyDtype np_float32)"
  by (simp add: get_args_def set_precision_def py_keys_def py_getitem_def py_getitem2_def
        py_setitem_def dict_get_def dict_set_def precisions_get_def hashable_def precisions_def
        cfg_aliased_def)

lemma get_args_unhashable_precision:
  "get_args (\<lambda>p. (Inr (PRef 0), cfg_list_precision)) ''config.yaml''
     = (Inl TypeError, cfg_list_precision)"
  by (simp add: get_args_def set_precision_def py_keys_def py_getitem_def dict_get_def
        precisions_get_def hashable_def cfg_list_precision_def)

text \<open>
  Claim C9. The name \<open>int8\<close> resolves to the unsigned pair \<open>(np.uint8, torch.uint8)\<close>, and a
  document with \<open>precision: int8\<close> and its two sections ends with
  \<open>dataset.precision = np.uint8\<close> and \<open>model.precision = torch.uint8\<close>.
\<close>

theorem int8_is_unsigned:
  "precisions_get (PStr ''int8'') = Inr (Some (np_uint8, torch_uint8))
   \<and> (safe_load path = (Inr (PRef a), h) \<and> h a = Some (PDict kvs)
        \<and> dict_get kvs ''precision'' = Some (PStr ''int8'')
        \<and> dict_get kvs ''model'' = Some m \<and> is_dict h m
        \<and> dict_get kvs ''dataset'' = Some ds \<and> is_dict h ds \<and> m \<noteq> ds
       \<longrightarrow> (\<exists>h'. get_args safe_load path = (Inr (PRef a), h')
              \<and> py_getitem2 h' (PRef a) ''dataset'' ''precision'' = Inr (PNumpyDtype np_uint8)
              \<and> py_getitem2 h' (PRef a) ''model'' ''precision'' = Inr (PTorchDtype torch_uint8)))"
proof (intro conjI impI)
  show "precisions_get (PStr ''int8'') = Inr (Some (np_uint8, torch_uint8))"
    by (simp add: precisions_get_def hashable_def precisions_def)
next
  assume a: "safe_load path = (Inr (PRef a), h) \<and> h a = Some (PDict kvs)
        \<and> dict_get kvs ''precision'' = Some (PStr ''int8'')
        \<and> dict_get kvs ''model'' = Some m \<and> is_dict h m
        \<and> dict_get kvs ''dataset'' = Some ds \<and> is_dict h ds \<and> m \<noteq> ds"
  have r: "map_of precisions ''int8'' = Some (np_uint8, torch_uint8)"
    by (simp add: precisions_def)
  from a r obtain h' where "set_precision h (PRef a) = (Inr (PRef a), h')"
      "py_getitem2 h' (PRef a) ''model'' ''precision'' = Inr (PTorchDtype torch_uint8)"
      "py_getitem2 h' (PRef a) ''dataset'' ''precision'' = Inr (PNumpyDtype np_uint8)"
    using set_precision_written [of h a kvs "''int8''" np_uint8 torch_uint8 m ds] by blast
  with a show "\<exists>h'. get_args safe_load path = (Inr (PRef a), h')
              \<and> py_getitem2 h' (PRef a) ''dataset'' ''precision'' = Inr (PNumpyDtype np_uint8)
              \<and> py_getitem2 h' (PRef a) ''model'' ''precision'' = Inr (PTorchDtype torch_uint8)"
    by (simp add: get_args_def)
qed

theorem int8_is_unsigned_witness:
  "\<exists>h'. get_args (\<lambda>p. (Inr (PRef 0), cfg_int8)) ''config.yaml'' = (Inr (PRef 0), h')
        \<and> py_getitem2 h' (PRef 0) ''dataset'' ''precision'' = Inr (PNumpyDtype np_uint8)
        \<and> py_getitem2 h' (PRef 0) ''model'' ''precision'' = Inr (PTorchDtype torch_uint8)"
  using int8_is_unsigned [of "\<lambda>p. (Inr (PRef 0), cfg_int8)" "''config.yaml''" 0 cfg_int8
      "[(PStr ''precision'', PStr ''int8''), (PStr ''model'', PRef 1), (PStr ''dataset'', PRef 2)]"
      "PRef 1" "PRef 2"]
  by (simp add: dict_get_def is_dict_def cfg_int8_def)

text \<open>
  Claim C10. When \<open>precision\<close> at the root is a registered name and the document has no
  \<open>model\<close> key or no \<open>dataset\<close> key, \<open>get_args\<close> raises instead of returning the document:
  \<open>KeyError('model')\<close> when \<open>model\<close> is missing, and \<open>KeyError('dataset')\<close> when \<open>model\<close>
  holds a mapping and \<open>dataset\<close> is missing.
\<close>

theorem get_args_missing_section:
  assumes "safe_load path = (Inr (PRef a), h)" and "h a = Some (PDict kvs)"
    and "dict_get kvs ''precision'' = Some (PStr n)" and "map_of precisions n = Some (np, th)"
    and "dict_get kvs ''model'' = None \<or> dict_get kvs ''dataset'' = None"
  shows "(\<exists>e. fst (get_args safe_load path) = Inl e)
       \<and> (dict_get kvs ''model'' = None
            \<longrightarrow> get_args safe_load path = (Inl (KeyError ''model''), h))
       \<and> (dict_get kvs ''model'' = Some m \<and> is_dict h m
            \<longrightarrow> fst (get_args safe_load path) = Inl (KeyError ''dataset''))"
proof -
  have g: "get_args safe_load path = set_precision h (PRef a)"
    using assms(1) by (simp add: get_args_def)
  have "\<exists>e. fst (set_precision h (PRef a)) = Inl e"
    using set_precision_missing_section [of h a kvs n np th] assms by blast
  moreover have "dict_get kvs ''model'' = None
       \<longrightarrow> set_precision h (PRef a) = (Inl (KeyError ''model''), h)"
    using set_precision_missing_model [of h a kvs n np th] assms by blast
  moreover have "dict_get kvs ''model'' = Some m \<and> is_dict h m
       \<longrightarrow> fst (set_precision h (PRef a)) = Inl (KeyError ''dataset'')"
    using set_precision_missing_dataset [of h a kvs n np th m] assms by auto
  ultimately show ?thesis by (simp add: g)
qed

theorem get_args_missing_section_witness:
  "get_args (\<lambda>p. (Inr (PRef 0), cfg_no_model)) ''config.yaml'' = (Inl (KeyError ''model''), cfg_no_model)
   \<and> fst (get_args (\<lambda>p. (Inr (PRef 0), cfg_no_dataset)) ''config.yaml'') = Inl (KeyError ''dataset'')"
proof
  show "get_args (\<lambda>p. (Inr (PRef 0), cfg_no_model)) ''config.yaml'' = (Inl (KeyError ''model''), cfg_no_model)"
    using get_args_missing_section [of "\<lambda>p. (Inr (PRef 0), cfg_no_model)" "''config.yaml''" 0
        cfg_no_model "[(PStr ''precision'', PStr ''float32'')]" "''float32''" np_float32 torch_float32]
    by (simp add: dict_get_def precisions_def cfg_no_model_def)
  show "fst (get_args (\<lambda>p. (Inr (PRef 0), cfg_no_dataset)) ''config.yaml'') = Inl (KeyError ''dataset'')"
    using get_args_missing_section [of "\<lambda>p. (Inr (PRef 0), cfg_no_dataset)" "''config.yaml''" 0
        cfg_no_dataset "[(PStr ''precision'', PStr ''float32''), (PStr ''model'', PRef 1)]"
        "''float32''" np_float32 torch_float32 "PRef 1"]
    by (simp add: dict_get_def precisions_def is_dict_def cfg_no_dataset_def)
qed

section \<open>Properties of the model register\<close>

lemma register_all_other:
  "n \<notin> fst ` set regs \<Longrightarrow> model_register (register_all self regs) n = model_register self n"
  by (induction self regs rule: register_all.induct) (auto simp: register_model_def)


text \<open>
  Claim C3. Registering a constructor under a name and then asking for the name gives
  that constructor back; registering a second constructor under the same name replaces
  the first. A constructor is a class object, which is true.
\<close>

theorem register_then_get:
  assumes "truth C" and "truth C2"
  shows "get_model truth (register_model self n C) n = Inr C
       \<and> get_model truth (register_model (register_model self n C) n C2) n = Inr C2"
  using assms by (simp add: get_model_def register_model_def)

theorem register_then_get_witness:
  "get_model (\<lambda>c. True) (register_model Config_init ''SimpleModel'' ''AE'') ''SimpleModel'' = Inr ''AE''
   \<and> get_model (\<lambda>c. True)
        (register_model (register_model Config_init ''SimpleModel'' ''AE'') ''SimpleModel'' ''ConvVAE'')
        ''SimpleModel'' = Inr ''ConvVAE''"
  using register_then_get [of "\<lambda>c. True" "''AE''" "''ConvVAE''" Config_init "''SimpleModel''"]
  by simp

text \<open>
  Claim C6. Whatever has been registered since the register was created, asking for a
  name that is not among the registered ones raises: the RuntimeError of the source,
  with its message, and no constructor is returned.
\<close>

theorem get_unregistered:
  assumes "n \<notin> fst ` set regs"
  shows "get_model truth (register_all Config_init regs) n
           = Inl (RuntimeError (''Model of type '' @ n @ '' is not registered.''))"
  using register_all_other [of n regs Config_init] assms
  by (simp add: get_model_def Config_init_def)

theorem get_unregistered_witness:
  "get_model (\<lambda>c. True)
      (register_all Config_init [(''SimpleModel'', ''AE''), (''ConvVAE'', ''ConvVAE'')]) ''ConvLSTM''
     = Inl (RuntimeError ''Model of type ConvLSTM is not registered.'')"
  using get_unregistered [of "''ConvLSTM''" "[(''SimpleModel'', ''AE''), (''ConvVAE'', ''ConvVAE'')]" "\<lambda>c. True"]
  by simp

section \<open>Properties of float rounding\<close>

text \<open>
  The rounded value is within half a spacing of the exact one, the exponent is the one of
  the binade the value lies in, and a value that is a double already is left as it is.
\<close>

lemma rne_close: "\<bar>of_int (rne y) - y\<bar> \<le> 1 / 2"
proof -
  have "of_int \<lfloor>y\<rfloor> \<le> y" "y < of_int \<lfloor>y\<rfloor> + 1" by linarith+
  then show ?thesis by (auto simp: rne_def Let_def)
qed

lemma binade_lower:
  assumes "x \<noteq> 0"
  shows "2 powi binade x \<le> \<bar>x\<bar>"
proof (cases "\<bar>x\<bar> \<ge> 1")
  case True
  let ?m = "\<lfloor>\<bar>x\<bar>\<rfloor>"
  have m: "?m > 0" using True by linarith
  from bitlen_bounds [OF m] have b: "2 ^ nat (bitlen ?m - 1) \<le> ?m" by simp
  have "bitlen ?m - 1 \<ge> 0" using m by (simp add: bitlen_alt_def)
  then have "(2::rat) powi (bitlen ?m - 1) = 2 ^ nat (bitlen ?m - 1)"
    by (simp add: power_int_def)
  also have "\<dots> = of_int (2 ^ nat (bitlen ?m - 1))" by simp
  also have "\<dots> \<le> of_int ?m" using b by (simp only: of_int_le_iff)
  also have "\<dots> \<le> \<bar>x\<bar>" by linarith
  finally show ?thesis using True by (simp add: binade_def)
next
  case False
  let ?c = "\<lceil>1 / \<bar>x\<bar>\<rceil>"
  have x: "0 < \<bar>x\<bar>" "\<bar>x\<bar> < 1" using assms False by auto
  then have "1 / \<bar>x\<bar> > 1" by simp
  then have c: "?c - 1 > 0" by linarith
  from bitlen_bounds [OF c] have "?c - 1 < 2 ^ nat (bitlen (?c - 1))" by simp
  then have le: "?c \<le> 2 ^ nat (bitlen (?c - 1))" by linarith
  have "1 / \<bar>x\<bar> \<le> of_int ?c" by linarith
  also have "\<dots> \<le> of_int (2 ^ nat (bitlen (?c - 1)))" using le by (simp only: of_int_le_iff)
  also have "\<dots> = 2 ^ nat (bitlen (?c - 1))" by simp
  finally have "1 / \<bar>x\<bar> \<le> 2 ^ nat (bitlen (?c - 1))" .
  then have "1 / 2 ^ nat (bitlen (?c - 1)) \<le> \<bar>x\<bar>"
    using x(1) by (simp add: field_simps)
  moreover have "bitlen (?c - 1) \<ge> 0" by (simp add: bitlen_alt_def)
  then have "(2::rat) powi (- bitlen (?c - 1)) = 1 / 2 ^ nat (bitlen (?c - 1))"
    by (simp add: power_int_def field_simps)
  ultimately show ?thesis using False by (simp add: binade_def)
qed

lemma binade_upper:
  assumes "x \<noteq> 0"
  shows "\<bar>x\<bar> < 2 powi (binade x + 1)"
proof (cases "\<bar>x\<bar> \<ge> 1")
  case True
  let ?m = "\<lfloor>\<bar>x\<bar>\<rfloor>"
  have m: "?m > 0" using True by linarith
  from bitlen_bounds [OF m] have "?m < 2 ^ nat (bitlen ?m)" by simp
  then have le: "?m + 1 \<le> 2 ^ nat (bitlen ?m)" by linarith
  have b0: "bitlen ?m \<ge> 0" by (simp add: bitlen_alt_def)
  have "\<bar>x\<bar> < of_int (?m + 1)" by linarith
  also have "\<dots> \<le> of_int (2 ^ nat (bitlen ?m))" using le by (simp only: of_int_le_iff)
  also have "\<dots> = 2 ^ nat (bitlen ?m)" by simp
  also have "\<dots> = 2 powi (bitlen ?m)" using b0 by (simp add: power_int_def)
  finally show ?thesis using True by (simp add: binade_def)
next
  case False
  let ?c = "\<lceil>1 / \<bar>x\<bar>\<rceil>"
  let ?b = "bitlen (?c - 1)"
  have x: "0 < \<bar>x\<bar>" "\<bar>x\<bar> < 1" using assms False by auto
  then have "1 / \<bar>x\<bar> > 1" by simp
  then have c: "?c - 1 > 0" by linarith
  from bitlen_bounds [OF c] have lo: "2 ^ nat (?b - 1) \<le> ?c - 1" by simp
  have b1: "?b \<ge> 1" using c by (simp add: bitlen_alt_def)
  have "(2::rat) ^ nat (?b - 1) = of_int (2 ^ nat (?b - 1))" by simp
  also have "\<dots> \<le> of_int (?c - 1)" using lo by (simp only: of_int_le_iff)
  also have "\<dots> < 1 / \<bar>x\<bar>" by linarith
  finally have "(2::rat) ^ nat (?b - 1) < 1 / \<bar>x\<bar>" .
  then have "\<bar>x\<bar> < 1 / 2 ^ nat (?b - 1)"
    using x(1) by (simp add: field_simps)
  moreover have "(2::rat) powi (- ?b + 1) = 1 / 2 ^ nat (?b - 1)"
    using b1 by (simp add: power_int_def field_simps nat_diff_distrib)
  ultimately show ?thesis using False by (simp add: binade_def)
qed


lemma round64_close:
  "\<bar>round64 x - x\<bar> \<le> max \<bar>x\<bar> 1 / 2"
proof (cases "x = 0")
  case True
  then show ?thesis by (simp add: round64_def)
next
  case False
  define e where "e = max (binade x - 52) (- 1074)"
  define p where "p = (2::rat) powi e"
  have p0: "p > 0" by (simp add: p_def)
  have "p \<le> max \<bar>x\<bar> 1"
  proof (cases "binade x - 52 \<ge> - 1074")
    case True
    then have "e = binade x - 52" by (simp add: e_def)
    then have "p \<le> 2 powi binade x"
      unfolding p_def by (intro power_int_increasing) simp_all
    also have "\<dots> \<le> \<bar>x\<bar>" using False by (rule binade_lower)
    finally show ?thesis by simp
  next
    case False
    then have "e = - 1074" by (simp add: e_def)
    then have "p \<le> 2 powi 0"
      unfolding p_def by (intro power_int_increasing) simp_all
    then show ?thesis by simp
  qed
  moreover have "\<bar>round64 x - x\<bar> \<le> p / 2"
  proof -
    have "round64 x - x = (of_int (rne (x / p)) - x / p) * p"
      using False p0 by (simp add: round64_def e_def p_def Let_def field_simps)
    then have "\<bar>round64 x - x\<bar> = \<bar>of_int (rne (x / p)) - x / p\<bar> * p"
      using p0 by (simp add: abs_mult)
    also have "\<dots> \<le> 1 / 2 * p"
      using rne_close [of "x / p"] p0 by (intro mult_right_mono) simp_all
    finally show ?thesis by simp
  qed
  ultimately show ?thesis by linarith
qed

lemma round64_no_overflow:
  assumes "\<bar>x\<bar> \<le> 2 ^ 1023"
  shows "\<not> overflows (round64 x)"
proof -
  have "\<bar>round64 x\<bar> \<le> \<bar>x\<bar> + max \<bar>x\<bar> 1 / 2"
    using round64_close [of x] by linarith
  also have "\<dots> \<le> 2 ^ 1023 + 2 ^ 1023 / 2"
    using assms by (intro add_mono divide_right_mono) simp_all
  also have "\<dots> < 2 ^ 1024" by simp
  finally show ?thesis by (simp add: overflows_def)
qed

lemma round64_nonzero:
  assumes "\<bar>x\<bar> \<ge> 1"
  shows "round64 x \<noteq> 0"
proof
  assume "round64 x = 0"
  with round64_close [of x] assms have "\<bar>x\<bar> \<le> \<bar>x\<bar> / 2" by (simp add: max_def)
  with assms show False by simp
qed

lemma rat_of_int_abs_ge_1: "b \<noteq> 0 \<Longrightarrow> 1 \<le> \<bar>rat_of_int b\<bar>"
proof -
  assume "b \<noteq> 0"
  then have "1 \<le> \<bar>b\<bar>" by linarith
  then have "rat_of_int 1 \<le> rat_of_int \<bar>b\<bar>" by (simp only: of_int_le_iff)
  then show ?thesis by simp
qed

lemma rat_of_int_abs_le: "\<bar>i\<bar> \<le> 2 ^ n \<Longrightarrow> \<bar>rat_of_int i\<bar> \<le> 2 ^ n"
proof -
  assume "\<bar>i\<bar> \<le> 2 ^ n"
  then have "rat_of_int \<bar>i\<bar> \<le> rat_of_int (2 ^ n)" by (simp only: of_int_le_iff)
  then show ?thesis by simp
qed

lemma float_of_int_Finite:
  assumes "\<bar>i\<bar> \<le> 2 ^ 1023"
  shows "float_of_int i = Inr (Finite (round64 (of_int i)))"
proof -
  have "\<bar>rat_of_int i\<bar> \<le> 2 ^ 1023"
    using assms by (rule rat_of_int_abs_le)
  then show ?thesis
    using round64_no_overflow by (simp add: float_of_int_def Let_def)
qed

lemma int_truediv_Finite:
  assumes "b \<noteq> 0" and "\<bar>a\<bar> \<le> 2 ^ 1023"
  shows "int_truediv a b = Inr (Finite (round64 (of_int a / of_int b)))"
proof -
  have a: "\<bar>rat_of_int a\<bar> \<le> 2 ^ 1023"
    using assms(2) by (rule rat_of_int_abs_le)
  have b: "\<bar>rat_of_int b\<bar> \<ge> 1" using assms(1) by (rule rat_of_int_abs_ge_1)
  have "\<bar>rat_of_int a\<bar> * 1 \<le> \<bar>rat_of_int a\<bar> * \<bar>rat_of_int b\<bar>"
    using b by (intro mult_left_mono) simp_all
  moreover have "\<bar>rat_of_int b\<bar> > 0" using b by linarith
  ultimately have "\<bar>rat_of_int a\<bar> / \<bar>rat_of_int b\<bar> \<le> \<bar>rat_of_int a\<bar>"
    by (simp add: divide_le_eq)
  then have "\<bar>rat_of_int a / rat_of_int b\<bar> \<le> \<bar>rat_of_int a\<bar>"
    by (simp only: abs_divide)
  with a have "\<bar>rat_of_int a / rat_of_int b\<bar> \<le> 2 ^ 1023" by linarith
  then show ?thesis
    using round64_no_overflow assms(1) by (simp add: int_truediv_def Let_def)
qed

lemma float_div_int_returns:
  assumes "s \<noteq> 0" and "\<bar>s\<bar> \<le> 2 ^ 1023"
  shows "\<exists>y. float_div_int x s = Inr y"
proof -
  have "\<bar>rat_of_int s\<bar> \<ge> 1" using assms(1) by (rule rat_of_int_abs_ge_1)
  then have "round64 (of_int s) \<noteq> 0" by (rule round64_nonzero)
  then show ?thesis
    using float_of_int_Finite [OF assms(2)]
    by (cases x) (simp_all add: float_div_int_def and_then_def)
qed

lemma rne_of_int: "rne (of_int k) = k"
  by (simp add: rne_def Let_def)

lemma round64_exact:
  assumes "\<bar>m\<bar> < 2 ^ 53" and "- 1074 \<le> e'"
  shows "round64 (of_int m * 2 powi e') = of_int m * 2 powi e'"
proof (cases "m = 0")
  case True
  then show ?thesis by (simp add: round64_def)
next
  case False
  let ?x = "rat_of_int m * 2 powi e'"
  define e where "e = max (binade ?x - 52) (- 1074)"
  have x0: "?x \<noteq> 0" using False by simp
  have "\<bar>rat_of_int m\<bar> < 2 ^ 53"
  proof -
    from assms(1) have "rat_of_int \<bar>m\<bar> < rat_of_int (2 ^ 53)" by (simp only: of_int_less_iff)
    then show ?thesis by simp
  qed
  then have "\<bar>?x\<bar> < 2 ^ 53 * 2 powi e'"
    by (simp add: abs_mult)
  also have "\<dots> = 2 powi (53 + e')"
    by (simp add: power_int_add)
  finally have "2 powi binade ?x < (2::rat) powi (53 + e')"
    using binade_lower [OF x0] by linarith
  then have "binade ?x < 53 + e'"
    using power_int_increasing [of "53 + e'" "binade ?x" "2::rat"] by force
  then have le: "e \<le> e'" using assms(2) by (simp add: e_def)
  then obtain n where n: "e' = e + int n"
    by (metis zle_iff_zadd)
  have "?x / 2 powi e = of_int m * 2 ^ n"
    by (simp add: n power_int_add)
  also have "\<dots> = of_int (m * 2 ^ n)" by simp
  finally have q: "?x / 2 powi e = of_int (m * 2 ^ n)" .
  have "of_int (rne (?x / 2 powi e)) * 2 powi e = of_int (m * 2 ^ n) * 2 powi e"
    by (simp only: q rne_of_int)
  also have "\<dots> = ?x"
    by (simp add: n power_int_add)
  finally have "of_int (rne (?x / 2 powi e)) * 2 powi e = ?x" .
  then show ?thesis
    using x0 by (simp add: round64_def e_def Let_def)
qed

lemma round64_values:
  "round64 0 = 0" "round64 1 = 1" "round64 2 = 2" "round64 3 = 3" "round64 5 = 5"
  "round64 7 = 7" "round64 9 = 9" "round64 10 = 10"
  "round64 (5 / 2) = 5 / 2" "round64 (7 / 2) = 7 / 2" "round64 (- (3 / 2)) = - (3 / 2)"
  "round64 (- (3 / 4)) = - (3 / 4)" "round64 (1 / 4) = 1 / 4"
  using round64_exact [of 0 0] round64_exact [of 1 0] round64_exact [of 2 0]
    round64_exact [of 3 0] round64_exact [of 5 0] round64_exact [of 7 0]
    round64_exact [of 9 0] round64_exact [of 10 0] round64_exact [of 5 "- 1"]
    round64_exact [of 7 "- 1"] round64_exact [of "- 3" "- 1"] round64_exact [of "- 3" "- 2"]
    round64_exact [of 1 "- 2"]
  by (simp_all add: power_int_minus)

text \<open>Values of magnitude \<open>2^1025\<close> or more are beyond the doubles.\<close>

lemma round64_overflows:
  assumes "2 ^ 1025 \<le> \<bar>x\<bar>"
  shows "overflows (round64 x)"
proof -
  have "(1::rat) \<le> 2 ^ 1025" by simp
  with assms have "max \<bar>x\<bar> 1 = \<bar>x\<bar>" by linarith
  with round64_close [of x] have "\<bar>x\<bar> / 2 \<le> \<bar>round64 x\<bar>" by linarith
  moreover have "(2::rat) ^ 1024 \<le> \<bar>x\<bar> / 2" using assms by simp
  ultimately show ?thesis by (simp add: overflows_def)
qed

section \<open>Properties of the constructor's shape check\<close>

text \<open>The two lengths for the two parameter sets of the specification.\<close>

lemma ef_length_10_5_2_0: "AE_ef_length 10 5 2 0 = Inr (Finite (7/2))"
  by (simp add: AE_ef_length_def int_truediv_def float_add_int_def float_of_int_def
        and_then_def to_float_def overflows_def round64_values Let_def)

lemma ls_length_10_5_2_0: "AE_ls_length (Finite (7/2)) 5 2 0 = Inr (Finite (1/4))"
  by (simp add: AE_ls_length_def float_sub_int_def float_add_int_def float_div_int_def
        float_of_int_def float_sub_def and_then_def to_float_def overflows_def round64_values Let_def)

lemma shape_check_10_5_2_0: "AE_shape_check 10 5 2 0 out = (Inr (Finite (7/2), Finite (1/4)), out @ [ShapeWarning (Finite (7/2)) (Finite (1/4))])"
  by (simp add: AE_shape_check_def ef_length_10_5_2_0 ls_length_10_5_2_0)

lemma ef_length_10_3_1_1: "AE_ef_length 10 3 1 1 = Inr (Finite 10)"
  by (simp add: AE_ef_length_def int_truediv_def float_add_int_def float_of_int_def
        and_then_def to_float_def overflows_def round64_values Let_def)

lemma ls_length_10_3_1_1: "AE_ls_length (Finite 10) 3 1 1 = Inr (Finite 10)"
  by (simp add: AE_ls_length_def float_sub_int_def float_add_int_def float_div_int_def
        float_of_int_def float_sub_def and_then_def to_float_def overflows_def round64_values Let_def)

lemma shape_check_10_3_1_1: "AE_shape_check 10 3 1 1 out = (Inr (Finite 10, Finite 10), out)"
  by (simp add: AE_shape_check_def ef_length_10_3_1_1 ls_length_10_3_1_1)

text \<open>
  Where the quotient is no double it is rounded: for kernel 3, stride 3, padding 0 and
  length 10, \<open>ef_length\<close> is Python's \<open>3.3333333333333335\<close>.
\<close>

lemma round64_7_3: "round64 (7 / 3) = 5254199565265579 / 2251799813685248"
  by code_simp

lemma round64_10_3: "round64 (7505999378950827 / 2251799813685248) = 7505999378950827 / 2251799813685248"
  using round64_exact [of 7505999378950827 "- 51"] by (simp add: power_int_minus)

lemma ef_length_10_3_3_0:
  "AE_ef_length 10 3 3 0 = Inr (Finite (7505999378950827 / 2251799813685248))"
  by (simp add: AE_ef_length_def int_truediv_def float_add_int_def float_of_int_def
        and_then_def to_float_def overflows_def round64_values round64_7_3 round64_10_3 Let_def)

text \<open>
  Claim C2, as amended. For kernel 3, stride 1, padding 1 and length 10 the constructor
  finds \<open>ef_length == ls_length == 10\<close> and prints nothing; for kernel 5, stride 2, padding
  0 and length 10 it finds \<open>ef_length > ls_length\<close> and prints the warning; in both cases
  the check returns and the constructor goes on.
\<close>

theorem shape_check_examples:
  "AE_shape_check 10 3 1 1 out = (Inr (Finite 10, Finite 10), out)
   \<and> (\<exists>ef ls. AE_ef_length 10 5 2 0 = Inr ef \<and> AE_ls_length ef 5 2 0 = Inr ls
         \<and> AE_shape_check 10 5 2 0 out = (Inr (ef, ls), out @ [ShapeWarning ef ls])
         \<and> float_gt ef ls)"
  by (simp add: shape_check_10_5_2_0 shape_check_10_3_1_1 ef_length_10_5_2_0 ls_length_10_5_2_0)

text \<open>
  The claim as first stated gives 3 and 1 for kernel 5, stride 2, padding 0 and length 10.
  The constructor computes 3.5 and 0.25.
\<close>

theorem shape_check_examples_counterexample:
  "fst (AE_shape_check 10 5 2 0 []) = Inr (Finite (7 / 2), Finite (1 / 4))
   \<and> fst (AE_shape_check 10 5 2 0 []) \<noteq> Inr (Finite 3, Finite 1)"
  by (simp add: shape_check_10_5_2_0)

text \<open>The specification's rounded formula gives 3 and then 0 on that input.\<close>

lemma spec_conv_length_example:
  "spec_conv_length 10 5 0 2 = 3 \<and> spec_conv_length (spec_conv_length 10 5 0 2) 5 0 2 = 0"
  by (simp add: spec_conv_length_def)

text \<open>
  Claim C7, as amended. With a stride other than zero and the four parameters below
  \<open>2^1000\<close> in magnitude, the check does not raise: both lengths are computed, the warning
  is printed exactly when the computed \<open>ef_length\<close> is greater than the computed
  \<open>ls_length\<close> and nothing is printed otherwise, and the constructor goes on.
\<close>

theorem shape_check_warns:
  assumes "stride \<noteq> 0"
    and "\<bar>sequence_length\<bar> < 2 ^ 1000" and "\<bar>kernel_size\<bar> < 2 ^ 1000"
    and "\<bar>stride\<bar> < 2 ^ 1000" and "\<bar>padding\<bar> < 2 ^ 1000"
  shows "\<exists>ef ls. AE_ef_length sequence_length kernel_size stride padding = Inr ef
           \<and> AE_ls_length ef kernel_size stride padding = Inr ls
           \<and> AE_shape_check sequence_length kernel_size stride padding out
                = (Inr (ef, ls), if float_gt ef ls then out @ [ShapeWarning ef ls] else out)"
proof -
  have b: "(2::int) ^ 1000 * 4 \<le> 2 ^ 1023" by simp
  have n: "\<bar>sequence_length - kernel_size + 2 * padding\<bar> \<le> 2 ^ 1023"
    using assms(2,3,5) b by linarith
  have k: "\<bar>kernel_size\<bar> \<le> 2 ^ 1023" and s: "\<bar>stride\<bar> \<le> 2 ^ 1023"
    and p: "\<bar>2 * padding\<bar> \<le> 2 ^ 1023" and o: "\<bar>1::int\<bar> \<le> 2 ^ 1023"
    using assms(3,4,5) b by linarith+
  obtain ef where ef: "AE_ef_length sequence_length kernel_size stride padding = Inr ef"
    using int_truediv_Finite [OF assms(1) n] float_of_int_Finite [OF o]
    by (simp add: AE_ef_length_def float_add_int_def and_then_def)
  obtain y where y: "float_div_int (float_add (float_sub ef (Finite (round64 (of_int kernel_size))))
                        (Finite (round64 (of_int (2 * padding))))) stride = Inr y"
    using float_div_int_returns [OF assms(1) s] by blast
  then obtain ls where ls: "AE_ls_length ef kernel_size stride padding = Inr ls"
    using float_of_int_Finite [OF k] float_of_int_Finite [OF p] float_of_int_Finite [OF o]
    by (simp add: AE_ls_length_def float_sub_int_def float_add_int_def and_then_def)
  from ef ls show ?thesis by (simp add: AE_shape_check_def)
qed

theorem shape_check_warns_witness:
  "AE_shape_check 10 5 2 0 []
     = (Inr (Finite (7 / 2), Finite (1 / 4)), [ShapeWarning (Finite (7 / 2)) (Finite (1 / 4))])
   \<and> AE_shape_check 10 3 1 1 [] = (Inr (Finite 10, Finite 10), [])"
proof
  obtain ef ls where "AE_ef_length 10 5 2 0 = Inr ef" "AE_ls_length ef 5 2 0 = Inr ls"
    and r: "AE_shape_check 10 5 2 0 []
              = (Inr (ef, ls), if float_gt ef ls then [] @ [ShapeWarning ef ls] else [])"
    using shape_check_warns [of 2 10 5 0 "[]"] by auto
  then have "ef = Finite (7 / 2)" "ls = Finite (1 / 4)"
    using ef_length_10_5_2_0 ls_length_10_5_2_0 by simp_all
  with r show "AE_shape_check 10 5 2 0 []
     = (Inr (Finite (7 / 2), Finite (1 / 4)), [ShapeWarning (Finite (7 / 2)) (Finite (1 / 4))])"
    by simp
next
  obtain ef ls where "AE_ef_length 10 3 1 1 = Inr ef" "AE_ls_length ef 3 1 1 = Inr ls"
    and r: "AE_shape_check 10 3 1 1 []
              = (Inr (ef, ls), if float_gt ef ls then [] @ [ShapeWarning ef ls] else [])"
    using shape_check_warns [of 1 10 3 1 "[]"] by auto
  then have "ef = Finite 10" "ls = Finite 10"
    using ef_length_10_3_1_1 ls_length_10_3_1_1 by simp_all
  with r show "AE_shape_check 10 3 1 1 [] = (Inr (Finite 10, Finite 10), [])"
    by simp
qed

text \<open>
  The claim as first stated has the constructor never raise on the shape check. With a
  zero stride the division on line 63 raises.
\<close>

theorem shape_check_warns_counterexample:
  "AE_shape_check 10 5 0 0 [] = (Inl ZeroDivisionError, [])"
  by (simp add: AE_shape_check_def AE_ef_length_def int_truediv_def and_then_def)

text \<open>So it is for every zero stride, and integers too large for a float raise as well.\<close>

lemma shape_check_zero_stride:
  "AE_shape_check sequence_length kernel_size 0 padding out = (Inl ZeroDivisionError, out)"
  by (simp add: AE_shape_check_def AE_ef_length_def int_truediv_def and_then_def)

lemma shape_check_overflow:
  assumes "2 ^ 1025 \<le> sequence_length"
  shows "AE_shape_check sequence_length 0 1 0 out = (Inl OverflowError, out)"
proof -
  from assms have "rat_of_int (2 ^ 1025) \<le> rat_of_int sequence_length"
    by (simp only: of_int_le_iff)
  then have "2 ^ 1025 \<le> \<bar>rat_of_int sequence_length\<bar>" by simp
  then have "overflows (round64 (rat_of_int sequence_length))" by (rule round64_overflows)
  then show ?thesis
    by (simp add: AE_shape_check_def AE_ef_length_def int_truediv_def and_then_def Let_def)
qed

section \<open>Properties of elementwise operations\<close>

text \<open>
  Two well-formed tensors of one shape combine element by element: the offsets of the
  index tuples of a shape, in order, are \<open>0, 1, 2, ...\<close>, and no index is moved.
\<close>

lemma broadcast_rev_same: "broadcast_rev s s = Some s"
  by (induction s) auto

lemma broadcast_shapes_same: "broadcast_shapes s s = Some s"
  by (simp add: broadcast_shapes_def broadcast_rev_same)

lemma blocks_upt:
  "concat (map (\<lambda>i. map (\<lambda>k. i * P + k) [0..<P]) [0..<d]) = [0..<d * P]"
proof (induction d)
  case 0
  then show ?case by simp
next
  case (Suc d)
  have a: "map (\<lambda>k. d * P + k) [0..<P] = [d * P..<d * P + P]"
    using map_add_upt [of "d * P" P] by (simp add: add.commute)
  have b: "[0..<d * P + P] = [0..<d * P] @ [d * P..<d * P + P]"
    by (rule upt_add_eq_append) simp
  have "concat (map (\<lambda>i. map (\<lambda>k. i * P + k) [0..<P]) [0..<Suc d])
      = concat (map (\<lambda>i. map (\<lambda>k. i * P + k) [0..<P]) [0..<d]) @ map (\<lambda>k. d * P + k) [0..<P]"
    by simp
  also have "\<dots> = [0..<d * P] @ [d * P..<d * P + P]"
    by (simp only: Suc.IH a)
  also have "\<dots> = [0..<Suc d * P]"
    using b by (simp add: add.commute)
  finally show ?case .
qed

lemma ravel_indices: "map (ravel s) (indices s) = [0..<prod_list s]"
proof (induction s)
  case Nil
  then show ?case by simp
next
  case (Cons d ds)
  have "map (ravel (d # ds)) (indices (d # ds))
      = concat (map (\<lambda>i. map (\<lambda>js. i * prod_list ds + ravel ds js) (indices ds)) [0..<d])"
    by (simp add: map_concat comp_def)
  also have "\<dots> = concat (map (\<lambda>i. map (\<lambda>k. i * prod_list ds + k) (map (ravel ds) (indices ds))) [0..<d])"
    by (simp add: comp_def)
  also have "\<dots> = [0..<d * prod_list ds]"
    by (simp only: Cons.IH blocks_upt)
  finally show ?case by simp
qed

lemma indices_bounded:
  "idx \<in> set (indices s) \<Longrightarrow> length idx = length s \<and> list_all2 (<) idx s"
  by (induction s arbitrary: idx) auto

lemma operand_index_same:
  assumes "idx \<in> set (indices s)"
  shows "operand_index s idx = idx"
proof -
  from assms have l: "length idx = length s" and b: "list_all2 (<) idx s"
    using indices_bounded by blast+
  have "map2 (\<lambda>d i. if d = 1 then 0 else i) s idx = idx"
    using b
  proof (induction idx s rule: list_all2_induct)
    case Nil
    then show ?case by simp
  next
    case (Cons i js d ds)
    then show ?case by auto
  qed
  with l show ?thesis by (simp add: operand_index_def)
qed

lemma tensor_binop_same_shape:
  assumes "shape b = shape a" and "wf_tensor a" and "wf_tensor b"
  shows "tensor_binop f a b = Inr \<lparr>shape = shape a, elems = map2 f (elems a) (elems b)\<rparr>"
proof -
  let ?s = "shape a"
  have "map (\<lambda>idx. f (elems a ! ravel ?s (operand_index ?s idx))
                     (elems b ! ravel ?s (operand_index ?s idx))) (indices ?s)
      = map (\<lambda>idx. f (elems a ! ravel ?s idx) (elems b ! ravel ?s idx)) (indices ?s)"
    by (rule map_cong) (simp_all add: operand_index_same)
  also have "\<dots> = map (\<lambda>k. f (elems a ! k) (elems b ! k)) (map (ravel ?s) (indices ?s))"
    by (simp add: comp_def)
  also have "\<dots> = map (\<lambda>k. f (elems a ! k) (elems b ! k)) [0..<prod_list ?s]"
    by (simp only: ravel_indices)
  also have "\<dots> = map2 f (elems a) (elems b)"
    using assms by (intro nth_equalityI) (simp_all add: wf_tensor_def)
  finally show ?thesis
    using assms(1) by (simp add: tensor_binop_def broadcast_shapes_same)
qed

section \<open>Properties of the variational auto-encoder's forward pass\<close>

text \<open>
  What \<open>_encode\<close> returns are two well-formed tensors of one shape: both come out of a
  \<open>view\<close> to the same four sizes.
\<close>

lemma view_Inr:
  "view x s = Inr y \<Longrightarrow> shape y = s \<and> elems y = elems x \<and> wf_tensor y"
  by (auto simp: view_def wf_tensor_def split: if_splits)

lemma and_then_Inr: "and_then r f = Inr y \<longleftrightarrow> (\<exists>x. r = Inr x \<and> f x = Inr y)"
  by (cases r) (simp_all add: and_then_def)

lemma encode_shapes:
  assumes "ConvVAE__encode self x = Inr (mean, log_var)"
  shows "shape log_var = shape mean \<and> wf_tensor mean \<and> wf_tensor log_var"
  using assms
  by (auto simp: ConvVAE__encode_def and_then_Inr Let_def dest!: view_Inr split: prod.splits)

text \<open>
  On operands of one shape nothing is broadcast: the draw has that shape, and the sample
  is \<open>mean + var * epsilon\<close> element by element.
\<close>

lemma reparameterization_same_shape:
  assumes "shape var = shape mean" and "wf_tensor mean" and "wf_tensor var"
  shows "reparameterization mean var g =
           (Inr \<lparr>shape = shape mean,
                 elems = map2 (+) (elems mean) (map2 (*) (elems var) (stake (prod_list (shape mean)) g))\<rparr>,
            sdrop (prod_list (shape mean)) g)"
proof -
  let ?eps = "\<lparr>shape = shape var, elems = stake (prod_list (shape var)) g\<rparr>"
  have e: "wf_tensor ?eps" by (simp add: wf_tensor_def)
  have m: "tensor_binop (*) var ?eps
             = Inr \<lparr>shape = shape var, elems = map2 (*) (elems var) (elems ?eps)\<rparr>"
    using tensor_binop_same_shape [of ?eps var "(*)"] assms(3) e by simp
  let ?ve = "\<lparr>shape = shape var, elems = map2 (*) (elems var) (elems ?eps)\<rparr>"
  have "wf_tensor ?ve" using assms(3) by (simp add: wf_tensor_def)
  then have "tensor_binop (+) mean ?ve
             = Inr \<lparr>shape = shape mean, elems = map2 (+) (elems mean) (elems ?ve)\<rparr>"
    using tensor_binop_same_shape [of ?ve mean "(+)"] assms(1,2) by simp
  with m show ?thesis
    using assms(1) by (simp add: reparameterization_def randn_like_def and_then_def)
qed

text \<open>
  Claim C4. When \<open>_encode(x)\<close> returns \<open>(mean, log_var)\<close>, \<open>forward(x)\<close> draws noise once, as
  many samples as \<open>mean\<close> has elements, and returns \<open>decode(z)\<close> and nothing else, where
  \<open>z = mean + exp(0.5 * log_var) * noise\<close> element by element.
\<close>

theorem forward_reparameterizes:
  assumes "ConvVAE__encode self x = Inr (mean, log_var)"
  shows "ConvVAE_forward self x g =
           (ConvAE_decode self
              \<lparr>shape = shape mean,
               elems = map2 (+) (elems mean)
                         (map2 (*) (map (\<lambda>v. exp (1 / 2 * v)) (elems log_var))
                                   (stake (prod_list (shape mean)) g))\<rparr>,
            sdrop (prod_list (shape mean)) g)"
proof -
  from assms have s: "shape log_var = shape mean" "wf_tensor mean" "wf_tensor log_var"
    using encode_shapes by blast+
  let ?std = "tensor_exp (scalar_mul (1 / 2) log_var)"
  have "shape ?std = shape mean" "wf_tensor ?std"
    and "elems ?std = map (\<lambda>v. exp (1 / 2 * v)) (elems log_var)"
    using s by (simp_all add: tensor_exp_def scalar_mul_def wf_tensor_def comp_def)
  then show ?thesis
    using assms s(2) reparameterization_same_shape [of ?std mean g]
    by (simp add: ConvVAE_forward_def)
qed

lemma example_encode:
  "ConvVAE__encode example_vae example_x
     = Inr (\<lparr>shape = [1, 1, 2, 1], elems = [0, 2]\<rparr>, \<lparr>shape = [1, 1, 2, 1], elems = [0, 2]\<rparr>)"
  by (simp add: ConvVAE__encode_def example_vae_def example_x_def identity_module_def
        and_then_def swapaxes_def swap_list_def call_def relu_def unpack4_def view_def
        upt_rec [of 0] numeral_2_eq_2 Let_def)

theorem forward_reparameterizes_witness:
  "ConvVAE_forward example_vae example_x (1 ## 3 ## sconst 0)
     = (Inr \<lparr>shape = [1, 1, 2, 1], elems = [1, 2 + exp 1 * 3]\<rparr>, sconst 0)"
  using forward_reparameterizes [OF example_encode, of "1 ## 3 ## sconst 0"]
  by (simp add: ConvAE_decode_def example_vae_def identity_module_def call_def numeral_2_eq_2)

text \<open>When \<open>_encode\<close> raises, so does \<open>forward\<close>, and no noise is drawn.\<close>

lemma forward_encode_error:
  "ConvVAE__encode self x = Inl e \<Longrightarrow> ConvVAE_forward self x g = (Inl e, g)"
  by (simp add: ConvVAE_forward_def)

text \<open>
  Claim C5. With a standard deviation that is zero everywhere, of the shape of \<open>mean\<close>,
  \<open>reparameterization\<close> returns \<open>mean\<close> itself, whatever the noise drawn.
\<close>

theorem zero_std_returns_mean:
  assumes "wf_tensor mean"
  shows "fst (reparameterization mean (zeros (shape mean)) g) = Inr mean"
proof -
  let ?n = "prod_list (shape mean)"
  have z: "shape (zeros (shape mean)) = shape mean" "wf_tensor (zeros (shape mean))"
    by (simp_all add: zeros_def wf_tensor_def)
  have "map2 (*) (replicate ?n 0) (stake ?n g) = replicate ?n (0::real)"
    by (intro nth_equalityI) simp_all
  moreover have "map2 (+) (elems mean) (replicate ?n (0::real)) = elems mean"
    using assms by (intro nth_equalityI) (simp_all add: wf_tensor_def)
  ultimately show ?thesis
    using reparameterization_same_shape [of "zeros (shape mean)" mean g] z assms
    by (simp add: zeros_def)
qed

theorem zero_std_returns_mean_witness:
  "fst (reparameterization \<lparr>shape = [2], elems = [3, 4]\<rparr> (zeros [2]) (sconst 1))
     = Inr \<lparr>shape = [2], elems = [3, 4]\<rparr>"
  using zero_std_returns_mean [of "\<lparr>shape = [2], elems = [3, 4]\<rparr>" "sconst 1"]
  by (simp add: wf_tensor_def)

section \<open>Properties of freeze\<close>

lemma trainable_set_False: "trainable (set_requires_grad False ps) = 0"
  by (induction ps) (simp_all add: trainable_def)

lemma trainable_set_True: "trainable (set_requires_grad True ps) = length ps"
  by (induction ps) (simp_all add: trainable_def)

lemma set_requires_grad_idem: "set_requires_grad v (set_requires_grad v ps) = set_requires_grad v ps"
  by (induction ps) simp_all

lemma trainable_append: "trainable (ps @ qs) = trainable ps + trainable qs"
  by (simp add: trainable_def)

lemma module_requires_grad_idem:
  "module_requires_grad v (module_requires_grad v m) = module_requires_grad v m"
  by (simp add: module_requires_grad_def set_requires_grad_idem)

lemma params_module_requires_grad:
  "params (module_requires_grad v m) = set_requires_grad v (params m)"
  by (simp add: module_requires_grad_def)

lemma AE_freeze_trainable:
  "trainable (AE_parameters (AE_freeze ae unfreeze)) = (if unfreeze then 0 else length (AE_parameters ae))"
  by (simp add: AE_parameters_def AE_freeze_def trainable_append params_module_requires_grad
        trainable_set_False trainable_set_True)

lemma AE_freeze_idem: "AE_freeze (AE_freeze ae u) u = AE_freeze ae u"
    by (simp add: AE_freeze_def module_requires_grad_idem)

lemma ConvVAE_freeze_layers:
  "trainable (params (mean_layer (ConvVAE_freeze sf vae unfreeze)))
     = (if unfreeze then 0 else length (params (mean_layer (sf vae unfreeze))))
   \<and> trainable (params (var_layer (ConvVAE_freeze sf vae unfreeze)))
     = (if unfreeze then 0 else length (params (var_layer (sf vae unfreeze))))"
  by (simp add: ConvVAE_freeze_def Let_def params_module_requires_grad
        trainable_set_False trainable_set_True)

text \<open>
  Claim C8, on the code. \<open>freeze\<close> assigns \<open>requires_grad = not unfreeze\<close>: with
  \<open>unfreeze=False\<close> every parameter of the encoder and the decoder is trained afterwards,
  with \<open>unfreeze=True\<close> none is, and the two linear layers of the variational
  auto-encoder go the same way. The docstring says the opposite ("Unfreezes the
  parameter if set to True"). On the example auto-encoder, which starts with two of its
  four parameters trained:
\<close>

theorem freeze_inverted:
  "map requires_grad (AE_parameters example_ae) = [True, False, True, False]
   \<and> map requires_grad (AE_parameters (AE_freeze example_ae False)) = [True, True, True, True]
   \<and> map requires_grad (AE_parameters (AE_freeze example_ae True)) = [False, False, False, False]
   \<and> trainable (AE_parameters (AE_freeze ae False)) = length (AE_parameters ae)
   \<and> trainable (AE_parameters (AE_freeze ae True)) = 0
   \<and> trainable (params (mean_layer (ConvVAE_freeze sf vae False)))
        = length (params (mean_layer (sf vae False)))
   \<and> trainable (params (var_layer (ConvVAE_freeze sf vae False)))
        = length (params (var_layer (sf vae False)))
   \<and> trainable (params (mean_layer (ConvVAE_freeze sf vae True))) = 0
   \<and> trainable (params (var_layer (ConvVAE_freeze sf vae True))) = 0"
  by (simp add: AE_freeze_trainable ConvVAE_freeze_layers)
     (simp add: AE_parameters_def AE_freeze_def example_ae_def example_layer_def example_param_def
        module_requires_grad_def)

end
